theory Spec2Isabelle
  imports Main
begin

section \<open>Data model (lib/therapy-service.ts)\<close>

text \<open>
  Strings are byte strings: a JavaScript string is represented by the UTF-8 encoding of
  its text. The store (the hosted relational database) is a record of three tables, each
  a list of rows in \<open>created_at\<close> order, so that appending a row is inserting it with the
  latest timestamp and every query \<open>.order('created_at', { ascending: true })\<close> returns
  the rows in list order. The store is reliable: the branches of the service that re-throw
  a storage error are not part of the model. The fields no modelled function reads are
  left out: the ids of messages and summaries, timestamps, metadata, and \<open>user_id\<close>,
  \<open>has_summary\<close> and \<open>summary\<close> of a session.
\<close>

datatype session_type = PILOT | THERAPY

record TherapySession =
  id_of :: string
  session_type :: session_type
  partner_names :: "string option"

datatype role = User | Assistant

text \<open>The field \<open>name?: string | null\<close>: absent, \<open>null\<close>, or a string.\<close>

datatype name_field = Undefined | Null | Name string

record TherapyMessage =
  session_id :: string
  message :: string
  role :: role
  name :: name_field

record PartnerSummary =
  summary_session_id :: string
  partner_name :: string
  summary_text :: string

record store =
  chat_sessions :: "TherapySession list"
  chat_messages :: "TherapyMessage list"
  summaries :: "PartnerSummary list"

text \<open>The reserved author label of the shared solution entry.\<close>

definition SOLUTION :: string where
  "SOLUTION = ''SOLUTION''"

section \<open>Thread partitioner\<close>

subsection \<open>Client side: filterMessagesByPartner (chat page)\<close>

text \<open>
  The \<open>for\<close> loop over \<open>messages\<close>, as a recursion on the entries still to be read.
  \<open>seen\<close> is \<open>messages.slice(0, i)\<close>, \<open>acc\<close> is \<open>partnerMessages\<close> and \<open>expecting\<close> is
  \<open>expectingAIResponse\<close>.
\<close>

fun filterLoop ::
  "string \<Rightarrow> TherapyMessage list \<Rightarrow> TherapyMessage list \<Rightarrow> bool \<Rightarrow> TherapyMessage list
    \<Rightarrow> TherapyMessage list" where
  "filterLoop partnerName seen acc expecting [] = acc"
| "filterLoop partnerName seen acc expecting (msg # rest) =
    (if role msg = User \<and> name msg = Name partnerName then
       filterLoop partnerName (seen @ [msg]) (acc @ [msg]) True rest
     else if role msg = Assistant \<and> expecting then
       filterLoop partnerName (seen @ [msg]) (acc @ [msg]) False rest
     else if role msg = Assistant \<and> length acc = 0 then
       (let hasUserMessagesBefore =
              list_ex (\<lambda>m. role m = User \<and> name m = Name partnerName) seen
        in if \<not> hasUserMessagesBefore then
             filterLoop partnerName (seen @ [msg]) (acc @ [msg]) expecting rest
           else filterLoop partnerName (seen @ [msg]) acc expecting rest)
     else if role msg = Assistant \<and> name msg = Name SOLUTION then
       filterLoop partnerName (seen @ [msg]) (acc @ [msg]) expecting rest
     else filterLoop partnerName (seen @ [msg]) acc expecting rest)"

definition filterMessagesByPartner :: "TherapyMessage list \<Rightarrow> string \<Rightarrow> TherapyMessage list" where
  "filterMessagesByPartner messages partnerName = filterLoop partnerName [] [] False messages"

subsection \<open>Service side: the filter inside getTherapyChatHistory\<close>

text \<open>
  The callback of \<open>messages.filter((msg, index) => ...)\<close>. \<open>prevMsg\<close> is
  \<open>messages[index - 1]\<close> of the unfiltered array: \<open>None\<close> stands for \<open>undefined\<close>, which is
  what the read gives exactly at index 0.
\<close>

definition keepInHistory :: "string \<Rightarrow> TherapyMessage option \<Rightarrow> TherapyMessage \<Rightarrow> bool" where
  "keepInHistory partnerName prevMsg msg =
    (if role msg = User \<and> name msg = Name partnerName then True
     else if role msg = Assistant then
       (if (case prevMsg of None \<Rightarrow> False
            | Some p \<Rightarrow> role p = User \<and> name p = Name partnerName) then True
        else if prevMsg = None then True
        else False)
     else False)"

fun historyFilter :: "string \<Rightarrow> TherapyMessage option \<Rightarrow> TherapyMessage list \<Rightarrow> TherapyMessage list" where
  "historyFilter partnerName prevMsg [] = []"
| "historyFilter partnerName prevMsg (msg # rest) =
    (if keepInHistory partnerName prevMsg msg
     then msg # historyFilter partnerName (Some msg) rest
     else historyFilter partnerName (Some msg) rest)"

text \<open>
  \<open>partnerName?: string\<close>: \<open>None\<close> is an omitted argument; \<open>if (partnerName)\<close> is also
  false for the empty string.
\<close>

definition getTherapyChatHistory :: "string \<Rightarrow> string option \<Rightarrow> store \<Rightarrow> TherapyMessage list" where
  "getTherapyChatHistory sessionId partnerName db =
    (let messages = filter (\<lambda>m. session_id m = sessionId) (chat_messages db)
     in case partnerName of
          None \<Rightarrow> messages
        | Some p \<Rightarrow> if p = [] then messages else historyFilter p None messages)"

subsection \<open>The rest of the service\<close>

text \<open>
  \<open>.single()\<close> of the database client: the one row of the result, and an error (code
  PGRST116, which the service turns into \<open>null\<close>) when the result does not hold exactly
  one row.
\<close>

definition single :: "'a list \<Rightarrow> 'a option" where
  "single rows = (case rows of [r] \<Rightarrow> Some r | _ \<Rightarrow> None)"

text \<open>The database assigns the id of a new session; it is a parameter here.\<close>

definition createTherapySession :: "string \<Rightarrow> string \<Rightarrow> store \<Rightarrow> TherapySession \<times> store" where
  "createTherapySession newId partnerNames db =
    (let data = \<lparr>id_of = newId, session_type = THERAPY, partner_names = Some partnerNames\<rparr>
     in (data, db\<lparr>chat_sessions := chat_sessions db @ [data]\<rparr>))"

definition getTherapySession :: "string \<Rightarrow> store \<Rightarrow> TherapySession option" where
  "getTherapySession sessionId db =
    single (filter (\<lambda>s. id_of s = sessionId \<and> session_type s = THERAPY) (chat_sessions db))"

definition saveTherapyMessage :: "TherapyMessage \<Rightarrow> store \<Rightarrow> store" where
  "saveTherapyMessage msg db = db\<lparr>chat_messages := chat_messages db @ [msg]\<rparr>"

definition savePartnerSummary :: "PartnerSummary \<Rightarrow> store \<Rightarrow> store" where
  "savePartnerSummary summary db = db\<lparr>summaries := summaries db @ [summary]\<rparr>"

definition getSessionSummaries :: "string \<Rightarrow> store \<Rightarrow> PartnerSummary list" where
  "getSessionSummaries sessionId db =
    filter (\<lambda>s. summary_session_id s = sessionId) (summaries db)"

definition getPartnerSummary :: "string \<Rightarrow> string \<Rightarrow> store \<Rightarrow> PartnerSummary option" where
  "getPartnerSummary sessionId partnerName db =
    single (filter (\<lambda>s. summary_session_id s = sessionId \<and> partner_name s = partnerName)
              (summaries db))"

definition getAllSessionMessages :: "string \<Rightarrow> store \<Rightarrow> TherapyMessage list" where
  "getAllSessionMessages sessionId db =
    filter (\<lambda>m. session_id m = sessionId) (chat_messages db)"

definition checkBothPartnersSummarized :: "string \<Rightarrow> store \<Rightarrow> bool" where
  "checkBothPartnersSummarized sessionId db = (length (getSessionSummaries sessionId db) \<ge> 2)"

section \<open>Strings\<close>

text \<open>
  \<open>String.prototype.split\<close> with a non-empty separator: \<open>cur\<close> is the piece being read.
  With the empty separator JavaScript splits into single code units.
\<close>

fun splitLoop :: "string \<Rightarrow> string \<Rightarrow> string \<Rightarrow> string list" where
  "splitLoop sep cur [] = [cur]"
| "splitLoop sep cur (c # cs) =
    (if take (length sep) (c # cs) = sep
     then cur # splitLoop sep [] (drop (length sep - 1) cs)
     else splitLoop sep (cur @ [c]) cs)"

definition split :: "string \<Rightarrow> string \<Rightarrow> string list" where
  "split s sep = (if sep = [] then map (\<lambda>c. [c]) s else splitLoop sep [] s)"

text \<open>\<open>session.partner_names?.split(' & ') || []\<close>\<close>

definition partnerNamesOf :: "TherapySession \<Rightarrow> string list" where
  "partnerNamesOf session =
    (case partner_names session of None \<Rightarrow> [] | Some s \<Rightarrow> split s '' & '')"

text \<open>An array read \<open>xs[i]\<close>: \<open>None\<close> is \<open>undefined\<close>, the value of a read out of range.\<close>

definition at :: "'a list \<Rightarrow> nat \<Rightarrow> 'a option" where
  "at xs i = (if i < length xs then Some (xs ! i) else None)"

text \<open>
  \<open>toLowerCase\<close> on the ASCII range: letters A to Z are lowered, every other byte is
  kept. What JavaScript does to letters outside ASCII is not modelled.
\<close>

definition toLowerChar :: "char \<Rightarrow> char" where
  "toLowerChar c =
    (if (65::nat) \<le> of_char c \<and> of_char c \<le> (90::nat) then char_of (of_char c + (32::nat)) else c)"

definition toLowerCase :: "string \<Rightarrow> string" where
  "toLowerCase s = map toLowerChar s"

text \<open>
  \<open>String.prototype.trim\<close> strips the white space and line terminators of ECMAScript
  from both ends. They are listed here by their UTF-8 bytes: U+0009 to U+000D, U+0020,
  U+00A0, U+1680, U+2000 to U+200A, U+2028, U+2029, U+202F, U+205F, U+3000 and U+FEFF.
\<close>

definition whiteSpace :: "string list" where
  "whiteSpace =
    [[CHR 0x09], [CHR 0x0A], [CHR 0x0B], [CHR 0x0C], [CHR 0x0D], [CHR 0x20],
     [CHR 0xC2, CHR 0xA0],
     [CHR 0xE1, CHR 0x9A, CHR 0x80],
     [CHR 0xE2, CHR 0x80, CHR 0x80], [CHR 0xE2, CHR 0x80, CHR 0x81],
     [CHR 0xE2, CHR 0x80, CHR 0x82], [CHR 0xE2, CHR 0x80, CHR 0x83],
     [CHR 0xE2, CHR 0x80, CHR 0x84], [CHR 0xE2, CHR 0x80, CHR 0x85],
     [CHR 0xE2, CHR 0x80, CHR 0x86], [CHR 0xE2, CHR 0x80, CHR 0x87],
     [CHR 0xE2, CHR 0x80, CHR 0x88], [CHR 0xE2, CHR 0x80, CHR 0x89],
     [CHR 0xE2, CHR 0x80, CHR 0x8A],
     [CHR 0xE2, CHR 0x80, CHR 0xA8], [CHR 0xE2, CHR 0x80, CHR 0xA9],
     [CHR 0xE2, CHR 0x80, CHR 0xAF],
     [CHR 0xE2, CHR 0x81, CHR 0x9F],
     [CHR 0xE3, CHR 0x80, CHR 0x80],
     [CHR 0xEF, CHR 0xBB, CHR 0xBF]]"

text \<open>
  Stripping at the start: as long as one of the byte sequences \<open>ws\<close> begins the string,
  it is removed. Stripping at the end is the same on the reversed string.
\<close>

fun stripLeading :: "string list \<Rightarrow> string \<Rightarrow> string" where
  "stripLeading ws [] = []"
| "stripLeading ws (c # cs) =
    (case find (\<lambda>w. w \<noteq> [] \<and> take (length w) (c # cs) = w) ws of
       None \<Rightarrow> c # cs
     | Some w \<Rightarrow> stripLeading ws (drop (length w - 1) cs))"

definition trimStart :: "string \<Rightarrow> string" where
  "trimStart s = stripLeading whiteSpace s"

definition trimEnd :: "string \<Rightarrow> string" where
  "trimEnd s = rev (stripLeading (map rev whiteSpace) (rev s))"

definition trim :: "string \<Rightarrow> string" where
  "trim s = trimEnd (trimStart s)"

text \<open>\<open>String.prototype.includes\<close>: the argument occurs as a contiguous substring.\<close>

fun includes_str :: "string \<Rightarrow> string \<Rightarrow> bool" where
  "includes_str [] sub = (sub = [])"
| "includes_str (c # cs) sub = (take (length sub) (c # cs) = sub \<or> includes_str cs sub)"

section \<open>Conversation driver: the chat route (POST /api/therapist/chat)\<close>

subsection \<open>Prompt templates\<close>

definition createPartner1Prompt :: "string \<Rightarrow> string \<Rightarrow> string" where
  \<open>createPartner1Prompt partnerName otherPartnerName =
    ''You are a warm, emotionally intelligent friend who supports '' @
    partnerName @
    '' through relationship issues with empathy and honesty. You listen closely, '' @
    ''respond casually (like a close friend), and speak in a grounded, non-clinical '' @
    ''tone. Blend English and Hinglish naturally, depending on the emotional '' @
    ''tone.\<newline>'' @
    ''\<newline>'' @
    ''Your core role:\<newline>'' @
    ''- Help '' @
    partnerName @
    '' reflect on their feelings, needs, and relationship dynamics with '' @
    otherPartnerName @
    ''.\<newline>'' @
    ''- Ask thoughtful questions (1'' @
    [CHR 0xE2, CHR 0x80, CHR 0x93] @
    ''2 lines max) based on what they share.\<newline>'' @
    ''- Validate emotions gently, but don\'t shy away from offering honest perspectives '' @
    ''or challenging assumptions when needed.\<newline>'' @
    ''\<newline>'' @
    ''Avoid giving generic advice. Always ask for real-life examples, texts, '' @
    ''or context to understand their situation better.\<newline>'' @
    ''\<newline>'' @
    ''Be okay sitting with uncertainty '' @
    [CHR 0xE2, CHR 0x80, CHR 0x94] @
    '' say "I don\'t know" if needed, like a real friend would.\<newline>'' @
    ''\<newline>'' @
    ''Tone and language:\<newline>'' @
    ''- Never sound like a therapist or life coach.\<newline>'' @
    ''- Speak like a caring, real friend who "gets it." Use emotionally grounded '' @
    ''language; avoid being overly positive, preachy, or robotic.\<newline>'' @
    ''- Keep responses short and human '' @
    [CHR 0xE2, CHR 0x80, CHR 0x94] @
    '' max 1'' @
    [CHR 0xE2, CHR 0x80, CHR 0x93] @
    ''2 lines per reply.\<newline>'' @
    ''- Blend Hinglish where it fits naturally; keep it casual and intuitive.\<newline>'' @
    ''\<newline>'' @
    ''Conversation structure:\<newline>'' @
    ''- Every 10 user replies, summarize what you\'ve understood about '' @
    partnerName @
    ''\'s perspective so far in 3'' @
    [CHR 0xE2, CHR 0x80, CHR 0x93] @
    ''5 lines. Start this summary with, "Here\'s what I have understood so far '' @
    ''from your perspective".\<newline>'' @
    ''- Suggest what you\'d want to know from '' @
    otherPartnerName @
    '' in the situation to help move things forward.\<newline>'' @
    ''- Nudge deeper exploration through real behaviors and past patterns '' @
    [CHR 0xE2, CHR 0x80, CHR 0x94] @
    '' not vague hypotheticals.''\<close>

definition createPartner2Prompt :: "string \<Rightarrow> string \<Rightarrow> string" where
  \<open>createPartner2Prompt partnerName otherPartnerName =
    ''You are a warm, emotionally intelligent AI friend acting as a gentle mediator '' @
    ''between '' @
    otherPartnerName @
    '' and '' @
    partnerName @
    ''. You\'ve already spoken to '' @
    otherPartnerName @
    '' and understood their side deeply. Now, your job is to understand '' @
    partnerName @
    '' just as thoughtfully '' @
    [CHR 0xE2, CHR 0x80, CHR 0x94] @
    '' with care, curiosity, and honesty.\<newline>'' @
    ''\<newline>'' @
    ''You\'re not here to give advice or judge. You\'re here to create emotional '' @
    ''clarity between '' @
    partnerName @
    '' and '' @
    otherPartnerName @
    '' who may be hurting, confused, or stuck. Be soft, real, and grounded '' @
    [CHR 0xE2, CHR 0x80, CHR 0x94] @
    '' like a common friend who wants to help both be seen and heard.\<newline>'' @
    ''\<newline>'' @
    ''Instructions:\<newline>'' @
    ''\<newline>'' @
    ''-Start the conversation with this:\<newline>'' @
    ''- "Hey '' @
    partnerName @
    '', I\'ve already spoken to '' @
    otherPartnerName @
    ''. Here\'s what I understand about their perspective:\<newline>'' @
    ''- [Insert summary of '' @
    otherPartnerName @
    ''\'s emotional experience here '' @
    [CHR 0xE2, CHR 0x80, CHR 0x94] @
    '' keep it honest, non-blaming, and emotionally grounded.]\<newline>'' @
    ''- Now I\'d love to hear from you. What\'s been going on from your side?"\<newline>'' @
    ''\<newline>'' @
    ''Let '' @
    partnerName @
    '' share freely. Don\'t interrupt with long replies.\<newline>'' @
    ''\<newline>'' @
    ''-Ask short, thoughtful follow-ups (1'' @
    [CHR 0xE2, CHR 0x80, CHR 0x93] @
    ''2 lines max). Focus on uncovering:\<newline>'' @
    ''- their emotions\<newline>'' @
    ''- what they'' @
    [CHR 0xE2, CHR 0x80, CHR 0x99] @
    ''ve been needing\<newline>'' @
    ''- what they'' @
    [CHR 0xE2, CHR 0x80, CHR 0x99] @
    ''ve been hurt or confused by\<newline>'' @
    ''- how they'' @
    [CHR 0xE2, CHR 0x80, CHR 0x99] @
    ''ve seen User 1'' @
    [CHR 0xE2, CHR 0x80, CHR 0x99] @
    ''s actions\<newline>'' @
    ''- what made them shut down or pull back\<newline>'' @
    ''- what they still care about, if anything\<newline>'' @
    ''\<newline>'' @
    ''Tone guidelines:\<newline>'' @
    ''\<newline>'' @
    ''- Use a casual, warm tone (mix Hinglish + English if it fits naturally).\<newline>'' @
    ''- No clinical language.\<newline>'' @
    ''- No therapy vibes.\<newline>'' @
    ''- Don'' @
    [CHR 0xE2, CHR 0x80, CHR 0x99] @
    ''t preach or solve '' @
    [CHR 0xE2, CHR 0x80, CHR 0x94] @
    '' just help them reflect honestly.\<newline>'' @
    ''\<newline>'' @
    ''At the end of 10 user replies, generate a summary with 2 parts:\<newline>'' @
    ''\<newline>'' @
    ''- '' @
    [CHR 0xE2, CHR 0x80, CHR 0x9C] @
    ''Here'' @
    [CHR 0xE2, CHR 0x80, CHR 0x99] @
    ''s what I'' @
    [CHR 0xE2, CHR 0x80, CHR 0x99] @
    ''ve understood about your side of the story:'' @
    [CHR 0xE2, CHR 0x80, CHR 0x9D] @
    ''\<newline>'' @
    ''(Write a 4'' @
    [CHR 0xE2, CHR 0x80, CHR 0x93] @
    ''5 line emotionally clear summary from '' @
    partnerName @
    ''\'sview.)\<newline>'' @
    ''\<newline>'' @
    ''- "What feels like the next step now?"\<newline>'' @
    ''(Offer a thoughtful suggestion '' @
    [CHR 0xE2, CHR 0x80, CHR 0x94] @
    '' either for reflection, a conversation between '' @
    otherPartnerName @
    '' and '' @
    partnerName @
    '', or something each can sit with.)''\<close>

definition START_CONVERSATION :: string where
  "START_CONVERSATION = ''START_CONVERSATION''"

text \<open>
  The text the route appends to the selected prompt when the first partner's summary is
  found: the template literal after \<open>${selectedPrompt}\<close>.
\<close>

definition openingFraming :: "string \<Rightarrow> string \<Rightarrow> string \<Rightarrow> string" where
  \<open>openingFraming partnerName otherPartnerName summaryText =
    ''\<newline>'' @
    ''\<newline>'' @
    ''Start the conversation with '' @
    partnerName @
    ''\'s perspective:\<newline>'' @
    ''"Hey '' @
    otherPartnerName @
    '', I\'ve already spoken to '' @
    partnerName @
    ''. Here\'s what I understand about their perspective:\<newline>'' @
    ''\<newline>'' @
    summaryText @
    ''\<newline>'' @
    ''\<newline>'' @
    ''Now I\'d love to hear from you. What\'s been going on from your side?"''\<close>

text \<open>\<open>partnerNames.find(name => name !== partnerName) || 'your partner'\<close>\<close>

definition otherPartnerNameOf :: "string list \<Rightarrow> string \<Rightarrow> string" where
  "otherPartnerNameOf partnerNames partnerName =
    (case find (\<lambda>n. n \<noteq> partnerName) partnerNames of
       None \<Rightarrow> ''your partner''
     | Some n \<Rightarrow> if n = [] then ''your partner'' else n)"

text \<open>The system prompt of a turn: the route from the session lookup to the summary check.\<close>

definition selectedPromptOf :: "TherapySession \<Rightarrow> string \<Rightarrow> string \<Rightarrow> string \<Rightarrow> store \<Rightarrow> string" where
  "selectedPromptOf session sessionId partnerName message' db =
    (let partnerNames = partnerNamesOf session;
         isPartner1 = (at partnerNames 0 = Some partnerName);
         otherPartnerName = otherPartnerNameOf partnerNames partnerName;
         selectedPrompt =
           (if isPartner1 then createPartner1Prompt partnerName otherPartnerName
            else createPartner2Prompt partnerName otherPartnerName)
     in if \<not> isPartner1 \<and> message' = START_CONVERSATION then
          (case getPartnerSummary sessionId otherPartnerName db of
             None \<Rightarrow> selectedPrompt
           | Some partner1Summary \<Rightarrow>
               selectedPrompt @
               openingFraming partnerName otherPartnerName (summary_text partner1Summary))
        else selectedPrompt)"

subsection \<open>History and completion input\<close>

definition partnerOnlyMessages :: "TherapyMessage list \<Rightarrow> string \<Rightarrow> TherapyMessage list" where
  "partnerOnlyMessages messages partnerName =
    filter (\<lambda>msg. name msg = Name partnerName \<or>
                  (role msg = Assistant \<and> (name msg = Null \<or> name msg = Name partnerName)))
           messages"

text \<open>An entry of the completion input: a role and a content.\<close>

type_synonym chat_entry = "string \<times> string"

definition roleString :: "role \<Rightarrow> string" where
  "roleString r = (case r of User \<Rightarrow> ''user'' | Assistant \<Rightarrow> ''assistant'')"

definition conversationHistory :: "TherapyMessage list \<Rightarrow> string \<Rightarrow> chat_entry list" where
  "conversationHistory messages partnerName =
    map (\<lambda>msg. (roleString (role msg), message msg)) (partnerOnlyMessages messages partnerName)"

definition chatMessagesOf :: "string \<Rightarrow> string \<Rightarrow> chat_entry list \<Rightarrow> chat_entry list" where
  "chatMessagesOf selectedPrompt message' history =
    (if message' = START_CONVERSATION
     then [(''system'', selectedPrompt), (''user'', ''Please start the conversation'')]
     else [(''system'', selectedPrompt)] @ history @ [(''user'', message')])"

subsection \<open>Completion detector\<close>

definition summaryMarkers :: "string list" where
  \<open>summaryMarkers =
    [''Here\'s what I\'ve understood about your side of the story:'',
     ''Here\'s what I\'ve understood about their perspective so far'',
     ''what I\'ve understood about your perspective so far'',
     ''Here\'s what I have understood so far from your perspective'']\<close>

definition hasSummaryFormat :: "string \<Rightarrow> bool" where
  "hasSummaryFormat aiResponse =
    list_ex (\<lambda>marker. includes_str (toLowerCase aiResponse) (toLowerCase marker)) summaryMarkers"

definition detectSummary :: "string \<Rightarrow> string option" where
  "detectSummary aiResponse = (if hasSummaryFormat aiResponse then Some aiResponse else None)"

subsection \<open>The handler\<close>

text \<open>
  The completion call is a parameter: it fails, or returns a content that may be \<open>null\<close>.
\<close>

datatype completion = CompletionError | Completion "string option"

record chat_request =
  req_sessionId :: string
  req_partnerName :: string
  req_message :: string
  req_messages :: "TherapyMessage list"

datatype http_response =
    ErrorResponse nat string
  | ChatResponse string "string option"
  | SessionResponse string "string option"

text \<open>
  What the route answers once the completion call has returned or thrown: the \<open>catch\<close>
  branch, or the reply (the fixed fallback text when the content is missing or empty) with
  the detected summary.
\<close>

definition completionResponse :: "completion \<Rightarrow> http_response" where
  \<open>completionResponse result =
    (case result of
       CompletionError \<Rightarrow> ErrorResponse 500 ''Failed to process therapy chat''
     | Completion content \<Rightarrow>
         (let aiResponse =
                (case content of
                   None \<Rightarrow> ''I\'m here to help you work through this.''
                 | Some t \<Rightarrow>
                     if t = [] then ''I\'m here to help you work through this.'' else t)
          in ChatResponse aiResponse (detectSummary aiResponse)))\<close>

definition POST_chat :: "(chat_entry list \<Rightarrow> completion) \<Rightarrow> chat_request \<Rightarrow> store \<Rightarrow> http_response" where
  "POST_chat complete req db =
    (let sessionId = req_sessionId req; partnerName = req_partnerName req;
         message' = req_message req; messages' = req_messages req
     in if sessionId = [] \<or> partnerName = [] \<or> message' = [] then
          ErrorResponse 400 ''Missing required fields''
        else
          (case getTherapySession sessionId db of
             None \<Rightarrow> ErrorResponse 404 ''Session not found''
           | Some session \<Rightarrow>
               (let selectedPrompt = selectedPromptOf session sessionId partnerName message' db;
                    chatMessages = chatMessagesOf selectedPrompt message'
                                     (conversationHistory messages' partnerName)
                in completionResponse (complete chatMessages))))"

section \<open>Session creation\<close>

text \<open>The body field \<open>partnerNames\<close> of a create-session request, as parsed from JSON.\<close>

datatype body_field = Absent | NotAString | Str string

definition POST_create_session :: "string \<Rightarrow> body_field \<Rightarrow> store \<Rightarrow> http_response \<times> store" where
  "POST_create_session newId partnerNames db =
    (case partnerNames of
       Str s \<Rightarrow>
         if s = [] then (ErrorResponse 400 ''Partner names are required'', db)
         else (let (session, db') = createTherapySession newId s db
               in (SessionResponse (id_of session) (partner_names session), db'))
     | _ \<Rightarrow> (ErrorResponse 400 ''Partner names are required'', db))"

text \<open>The home page: what \<open>handleStartSession\<close> does with the two name fields.\<close>

datatype start_outcome = MissingInformation | StartFailed | Navigate string

definition handleStartSession :: "string \<Rightarrow> string \<Rightarrow> string \<Rightarrow> store \<Rightarrow> start_outcome \<times> store" where
  "handleStartSession newId partner1Name partner2Name db =
    (if trim partner1Name = [] \<or> trim partner2Name = [] then (MissingInformation, db)
     else
       (case POST_create_session newId (Str (trim partner1Name @ '' & '' @ trim partner2Name)) db of
          (SessionResponse sessionId _, db') \<Rightarrow> (Navigate sessionId, db')
        | (_, db') \<Rightarrow> (StartFailed, db')))"

section \<open>The chat page\<close>

text \<open>
  The state of one open chat page (its React state), passed explicitly: every function
  of the page takes the page state and the store and returns both, updated. Each call
  reads the state as it is when the call starts. Two browsers on the same session are two
  page states over one store. The record holds the state the modelled functions read or
  write; \<open>storedPartner\<close> is the page's item \<open>therapy_partner_<session id>\<close> in the
  browser's local storage.
\<close>

record Partner =
  pname :: string
  psummary :: "PartnerSummary option"
  isUsed :: "bool option"

record page =
  session :: "TherapySession option"
  partners :: "Partner list"
  selectedPartner :: "string option"
  messages :: "TherapyMessage list"
  input :: string
  isLoading :: bool
  otherPartnerSummary :: "PartnerSummary option"
  hasStartedChatting :: bool
  currentPartnerCompleted :: bool
  bothPartnersCompleted :: bool
  finalSolution :: "PartnerSummary option"
  allMessages :: "TherapyMessage list"
  storedPartner :: "string option"

text \<open>Truthiness of a \<open>string | null\<close>: neither \<open>null\<close> nor empty.\<close>

definition truthy :: "string option \<Rightarrow> bool" where
  "truthy v = (case v of None \<Rightarrow> False | Some t \<Rightarrow> t \<noteq> [])"

subsection \<open>Session completion coordinator: checkBothPartnersCompleted\<close>

text \<open>
  The heading the page puts before the summary text in the solution message, as the bytes
  of the source text, followed by the two line feeds.
\<close>

definition solutionHeading :: string where
  \<open>solutionHeading =
    [CHR 0xC3, CHR 0xB0, CHR 0xC5, CHR 0xB8, CHR 0xC5, CHR 0xBD, CHR 0xC2, CHR 0xAF] @
    '' **Final Solution & Recommendations**\<newline>\<newline>''\<close>

definition isSolution :: "TherapyMessage \<Rightarrow> bool" where
  "isSolution msg = (name msg = Name SOLUTION)"

definition checkBothPartnersCompleted :: "string \<Rightarrow> page \<times> store \<Rightarrow> page \<times> store" where
  "checkBothPartnersCompleted sessionId st =
    (let (pg, db) = st in
     case session pg of
       None \<Rightarrow> (pg, db)
     | Some sess \<Rightarrow>
         if bothPartnersCompleted pg then (pg, db)
         else
           (let sums = getSessionSummaries sessionId db;
                partnerNames = partnerNamesOf sess
            in if length sums \<ge> 2 \<and> \<not> bothPartnersCompleted pg then
                 (let messagesToCheck =
                        (if length (allMessages pg) > 0 then allMessages pg
                         else getAllSessionMessages sessionId db);
                      solutionExists = list_ex isSolution messagesToCheck
                  in if solutionExists then (pg\<lparr>bothPartnersCompleted := True\<rparr>, db)
                     else
                       (let pg1 = pg\<lparr>bothPartnersCompleted := True\<rparr>;
                            partner2Name = at partnerNames 1;
                            solution = find (\<lambda>s. Some (partner_name s) = partner2Name) sums
                        in case solution of
                             None \<Rightarrow> (pg1, db)
                           | Some sol \<Rightarrow>
                               (let pg2 = pg1\<lparr>finalSolution := Some sol\<rparr>;
                                    solutionMessage =
                                      \<lparr>session_id = sessionId,
                                       message = solutionHeading @ summary_text sol,
                                       role = Assistant,
                                       name = Name SOLUTION\<rparr>;
                                    db' = saveTherapyMessage solutionMessage db
                                in if truthy (selectedPartner pg) \<and>
                                      \<not> list_ex isSolution (messages pg)
                                   then (pg2\<lparr>messages := messages pg @ [solutionMessage]\<rparr>, db')
                                   else (pg2, db'))))
               else (pg, db)))"

subsection \<open>A turn: handleSubmit\<close>

datatype submit_outcome = NotSubmitted | TurnFailed | TurnDone bool

text \<open>
  \<open>TurnDone b\<close>: the turn went through, and \<open>b\<close> tells whether a coordinator check was
  scheduled (\<open>setTimeout(() => checkBothPartnersCompleted(), 500)\<close>). \<open>TurnFailed\<close> is
  the \<open>catch\<close> branch, which shows the error toast.
\<close>

definition handleSubmit ::
  "(chat_entry list \<Rightarrow> completion) \<Rightarrow> string \<Rightarrow> page \<times> store \<Rightarrow> submit_outcome \<times> page \<times> store" where
  "handleSubmit complete sessionId st =
    (let (pg, db) = st in
     case selectedPartner pg of
       None \<Rightarrow> (NotSubmitted, pg, db)
     | Some sp \<Rightarrow>
       if trim (input pg) = [] \<or> isLoading pg \<or> sp = [] then (NotSubmitted, pg, db)
       else
         (let userMessage =
                \<lparr>session_id = sessionId, message = input pg, role = User, name = Name sp\<rparr>;
              pg1 = pg\<lparr>messages := messages pg @ [userMessage], input := [],
                       isLoading := True, hasStartedChatting := True\<rparr>;
              db1 = saveTherapyMessage userMessage db;
              response =
                POST_chat complete
                  \<lparr>req_sessionId = sessionId, req_partnerName = sp, req_message = input pg,
                   req_messages = messages pg @ [userMessage]\<rparr> db1
          in case response of
               ChatResponse aiMessage summary \<Rightarrow>
                 (let assistantMessage =
                        \<lparr>session_id = sessionId, message = aiMessage, role = Assistant,
                         name = Name sp\<rparr>;
                      pg2 = pg1\<lparr>messages := messages pg1 @ [assistantMessage]\<rparr>;
                      db2 = saveTherapyMessage assistantMessage db1
                  in if truthy summary then
                       (let newSummary =
                              \<lparr>summary_session_id = sessionId, partner_name = sp,
                               summary_text = (case summary of Some t \<Rightarrow> t | None \<Rightarrow> [])\<rparr>;
                            db3 = savePartnerSummary newSummary db2;
                            pg3 = pg2\<lparr>partners :=
                                        map (\<lambda>p. if pname p = sp
                                                  then p\<lparr>psummary := Some newSummary\<rparr> else p)
                                            (partners pg2),
                                      currentPartnerCompleted := True\<rparr>
                        in (TurnDone True, pg3\<lparr>isLoading := False\<rparr>, db3))
                     else (TurnDone False, pg2\<lparr>isLoading := False\<rparr>, db2))
             | _ \<Rightarrow> (TurnFailed, pg1\<lparr>isLoading := False\<rparr>, db1)))"

subsection \<open>A start of conversation: autoStartConversation and handlePartnerSelect\<close>

text \<open>
  Both ask the route for an opener with the reserved message and an empty history, and
  store the reply when the response is ok; another response is ignored.
\<close>

definition autoStartConversation ::
  "(chat_entry list \<Rightarrow> completion) \<Rightarrow> string \<Rightarrow> string \<Rightarrow> page \<times> store \<Rightarrow> page \<times> store" where
  "autoStartConversation complete sessionId partnerName st =
    (let (pg, db) = st;
         pg1 = pg\<lparr>messages := [], hasStartedChatting := True, otherPartnerSummary := None\<rparr>;
         response =
           POST_chat complete
             \<lparr>req_sessionId = sessionId, req_partnerName = partnerName,
              req_message = START_CONVERSATION, req_messages = []\<rparr> db
     in case response of
          ChatResponse aiMessage summary \<Rightarrow>
            (let assistantMessage =
                   \<lparr>session_id = sessionId, message = aiMessage, role = Assistant,
                    name = Name partnerName\<rparr>
             in (pg1\<lparr>messages := [assistantMessage]\<rparr>, saveTherapyMessage assistantMessage db))
        | _ \<Rightarrow> (pg1, db))"

definition handlePartnerSelect ::
  "(chat_entry list \<Rightarrow> completion) \<Rightarrow> string \<Rightarrow> string \<Rightarrow> page \<times> store \<Rightarrow> page \<times> store" where
  "handlePartnerSelect complete sessionId partnerName st =
    (let (pg, db) = st;
         pg1 = pg\<lparr>selectedPartner := Some partnerName, messages := [],
                  hasStartedChatting := True, otherPartnerSummary := None,
                  storedPartner := Some partnerName\<rparr>;
         response =
           POST_chat complete
             \<lparr>req_sessionId = sessionId, req_partnerName = partnerName,
              req_message = START_CONVERSATION, req_messages = []\<rparr> db
     in case response of
          ChatResponse aiMessage summary \<Rightarrow>
            (let assistantMessage =
                   \<lparr>session_id = sessionId, message = aiMessage, role = Assistant,
                    name = Name partnerName\<rparr>
             in (pg1\<lparr>messages := [assistantMessage]\<rparr>, saveTherapyMessage assistantMessage db))
        | _ \<Rightarrow> (pg1, db))"

section \<open>Predicates of the specification\<close>

text \<open>
  The label filter of the chat route keeps an entry that carries the partner's label, or
  is an assistant entry with a \<open>null\<close> label.
\<close>

definition labelledFor :: "string \<Rightarrow> TherapyMessage \<Rightarrow> bool" where
  "labelledFor partnerName msg =
    (name msg = Name partnerName \<or> (role msg = Assistant \<and> name msg = Null))"

text \<open>
  A condition on a log that may interleave the entries of both partners. An assistant
  entry placed after the entries \<open>earlier\<close> opens or answers for the partner when, going
  back from it, the first entry that is an assistant entry or a message of the partner is
  a message of the partner, or there is no such entry. In a log whose labels follow the
  turns, no assistant entry is a solution entry, and an assistant entry passes the label
  filter exactly when it opens or answers for the partner. Nothing is asked of the user
  entries.
\<close>

definition opensOrAnswers :: "string \<Rightarrow> TherapyMessage list \<Rightarrow> bool" where
  "opensOrAnswers partnerName earlier =
    (case find (\<lambda>m. role m = Assistant \<or> (role m = User \<and> name m = Name partnerName))
            (rev earlier) of
       None \<Rightarrow> True
     | Some m \<Rightarrow> role m = User)"

fun labelsFollowTurns :: "string \<Rightarrow> TherapyMessage list \<Rightarrow> TherapyMessage list \<Rightarrow> bool" where
  "labelsFollowTurns partnerName earlier [] = True"
| "labelsFollowTurns partnerName earlier (m # rest) =
    ((role m = Assistant \<longrightarrow>
        name m \<noteq> Name SOLUTION \<and>
        labelledFor partnerName m = opensOrAnswers partnerName earlier) \<and>
     labelsFollowTurns partnerName (earlier @ [m]) rest)"

section \<open>Scenario data\<close>

text \<open>
  A session of Alice and Bob, some entries of its log, summary rows, and page states, for
  the evaluations below.
\<close>

definition aliceAndBob :: TherapySession where
  "aliceAndBob = \<lparr>id_of = ''s1'', session_type = THERAPY, partner_names = Some ''Alice & Bob''\<rparr>"

definition aliceOpener :: TherapyMessage where
  "aliceOpener =
    \<lparr>session_id = ''s1'', message = ''Hi Alice'', role = Assistant, name = Name ''Alice''\<rparr>"

definition aliceTurn :: TherapyMessage where
  "aliceTurn =
    \<lparr>session_id = ''s1'', message = ''We argued'', role = User, name = Name ''Alice''\<rparr>"

definition aliceReply :: TherapyMessage where
  "aliceReply =
    \<lparr>session_id = ''s1'', message = ''Tell me more'', role = Assistant, name = Name ''Alice''\<rparr>"

definition bobOpener :: TherapyMessage where
  "bobOpener =
    \<lparr>session_id = ''s1'', message = ''Hi Bob'', role = Assistant, name = Name ''Bob''\<rparr>"

definition bobTurn :: TherapyMessage where
  "bobTurn =
    \<lparr>session_id = ''s1'', message = ''She left'', role = User, name = Name ''Bob''\<rparr>"

definition bobReply :: TherapyMessage where
  "bobReply =
    \<lparr>session_id = ''s1'', message = ''Go on'', role = Assistant, name = Name ''Bob''\<rparr>"

definition solutionEntry :: TherapyMessage where
  "solutionEntry =
    \<lparr>session_id = ''s1'', message = solutionHeading @ ''Bob side'', role = Assistant,
     name = Name SOLUTION\<rparr>"

definition aliceSummary :: PartnerSummary where
  "aliceSummary =
    \<lparr>summary_session_id = ''s1'', partner_name = ''Alice'', summary_text = ''Alice side''\<rparr>"

definition aliceSummary2 :: PartnerSummary where
  "aliceSummary2 =
    \<lparr>summary_session_id = ''s1'', partner_name = ''Alice'', summary_text = ''Alice again''\<rparr>"

definition bobSummary :: PartnerSummary where
  "bobSummary =
    \<lparr>summary_session_id = ''s1'', partner_name = ''Bob'', summary_text = ''Bob side''\<rparr>"

definition bobSummary2 :: PartnerSummary where
  "bobSummary2 =
    \<lparr>summary_session_id = ''s1'', partner_name = ''Bob'', summary_text = ''Bob again''\<rparr>"

text \<open>
  Alice created the session: her page loaded an empty log, so its cache \<open>allMessages\<close> is
  empty. Bob opened the shared link later: his page cached the log as it was then.
\<close>

definition alicePage :: page where
  "alicePage =
    \<lparr>session = Some aliceAndBob, partners = [], selectedPartner = Some ''Alice'',
     messages = [aliceOpener], input = ''We argued'', isLoading = False,
     otherPartnerSummary = None, hasStartedChatting = True, currentPartnerCompleted = False,
     bothPartnersCompleted = False, finalSolution = None, allMessages = [],
     storedPartner = Some ''Alice''\<rparr>"

definition bobPage :: page where
  "bobPage =
    \<lparr>session = Some aliceAndBob, partners = [], selectedPartner = Some ''Bob'',
     messages = [], input = [], isLoading = False,
     otherPartnerSummary = None, hasStartedChatting = True, currentPartnerCompleted = True,
     bothPartnersCompleted = False, finalSolution = None, allMessages = [aliceOpener],
     storedPartner = Some ''Bob''\<rparr>"

definition storeWith :: "TherapyMessage list \<Rightarrow> PartnerSummary list \<Rightarrow> store" where
  "storeWith entries rows =
    \<lparr>chat_sessions = [aliceAndBob], chat_messages = entries, summaries = rows\<rparr>"

definition failingCompletion :: "chat_entry list \<Rightarrow> completion" where
  "failingCompletion entries = CompletionError"

section \<open>Thread partitioner: properties\<close>

text \<open>
  C3. The threads of the two partners share no entry other than the solution entry.
  This fails on the page's partitioner: the first assistant entry of a log is put into the
  thread of whoever has no entry yet, whatever its label. On the log of Alice's opener, her
  message and the reply to it, Bob's thread is Alice's opener, which is also in Alice's
  thread and is labelled \<open>Alice\<close>.
\<close>

theorem threads_share_opener:
  "filterMessagesByPartner [aliceOpener, aliceTurn, aliceReply] ''Alice'' =
     [aliceOpener, aliceTurn, aliceReply] \<and>
   filterMessagesByPartner [aliceOpener, aliceTurn, aliceReply] ''Bob'' = [aliceOpener] \<and>
   name aliceOpener = Name ''Alice'' \<and> name aliceOpener \<noteq> Name SOLUTION"
  by (simp add: filterMessagesByPartner_def aliceOpener_def aliceTurn_def aliceReply_def
      SOLUTION_def)

text \<open>
  C6. The partitioner of the page and the filter of the service compute the same thread.
  They do not: after Alice's message and the reply to it, the page keeps the solution
  entry and the service drops it.
\<close>

theorem partitioners_differ_on_solution:
  "filterMessagesByPartner [aliceTurn, aliceReply, solutionEntry] ''Alice'' =
     [aliceTurn, aliceReply, solutionEntry] \<and>
   getTherapyChatHistory ''s1'' (Some ''Alice'')
     (storeWith [aliceTurn, aliceReply, solutionEntry] []) = [aliceTurn, aliceReply]"
  by (simp add: filterMessagesByPartner_def getTherapyChatHistory_def keepInHistory_def
      storeWith_def aliceTurn_def aliceReply_def solutionEntry_def SOLUTION_def)

lemma partnerOnlyMessages_label_filter:
  "partnerOnlyMessages entries p = filter (labelledFor p) entries"
  unfolding partnerOnlyMessages_def labelledFor_def
  by (rule filter_cong) auto

lemma filterLoop_label_filter:
  assumes "labelsFollowTurns p earlier rest"
    and "expecting =
          (\<exists>a. find (\<lambda>m. role m = Assistant \<or> (role m = User \<and> name m = Name p)) (rev earlier) = Some a
               \<and> role a = User)"
    and "(acc = []) =
          (find (\<lambda>m. role m = Assistant \<or> (role m = User \<and> name m = Name p)) (rev earlier) = None)"
  shows "filterLoop p earlier acc expecting rest = acc @ filter (labelledFor p) rest"
  using assms
proof (induction rest arbitrary: earlier acc expecting)
  case Nil
  then show ?case by simp
next
  case (Cons m rest)
  let ?A = "\<lambda>m. role m = Assistant \<or> (role m = User \<and> name m = Name p)"
  have follow: "labelsFollowTurns p (earlier @ [m]) rest"
    using Cons.prems(1) by simp
  have found: "find ?A (rev (earlier @ [m])) = (if ?A m then Some m else find ?A (rev earlier))"
    by simp
  show ?case
  proof (cases "role m")
    case User
    show ?thesis
    proof (cases "name m = Name p")
      case True
      have "filterLoop p (earlier @ [m]) (acc @ [m]) True rest =
              (acc @ [m]) @ filter (labelledFor p) rest"
        by (rule Cons.IH [OF follow]) (simp_all add: User True)
      moreover have "labelledFor p m" using True by (simp add: labelledFor_def)
      ultimately show ?thesis using User True by simp
    next
      case False
      have "filterLoop p (earlier @ [m]) acc expecting rest = acc @ filter (labelledFor p) rest"
        by (rule Cons.IH [OF follow]) (use Cons.prems(2,3) User False in simp_all)
      moreover have "\<not> labelledFor p m" using User False by (simp add: labelledFor_def)
      ultimately show ?thesis using User False by simp
    qed
  next
    case Assistant
    have lab: "labelledFor p m = opensOrAnswers p earlier" and nosol: "name m \<noteq> Name SOLUTION"
      using Cons.prems(1) Assistant by simp_all
    have opens: "opensOrAnswers p earlier = (expecting \<or> acc = [])"
      using Cons.prems(2,3) by (auto simp: opensOrAnswers_def split: option.splits)
    have nouser: "acc = [] \<Longrightarrow> \<not> list_ex (\<lambda>m. role m = User \<and> name m = Name p) earlier"
    proof -
      assume "acc = []"
      then have "find ?A (rev earlier) = None" using Cons.prems(3) by simp
      then show ?thesis by (auto simp: find_None_iff list_ex_iff)
    qed
    have keep: "filterLoop p (earlier @ [m]) (acc @ [m]) False rest =
                  (acc @ [m]) @ filter (labelledFor p) rest"
      by (rule Cons.IH [OF follow]) (simp_all add: Assistant)
    show ?thesis
    proof (cases "expecting \<or> acc = []")
      case True
      then have "labelledFor p m" using lab opens by simp
      moreover have "\<not> expecting \<Longrightarrow> acc = []" using True by blast
      ultimately show ?thesis
        using Assistant keep nouser by (cases expecting) (simp_all add: Let_def)
    next
      case False
      then have out: "\<not> labelledFor p m" using lab opens by simp
      have "filterLoop p (earlier @ [m]) acc expecting rest = acc @ filter (labelledFor p) rest"
        by (rule Cons.IH [OF follow]) (use Cons.prems(2,3) Assistant False in simp_all)
      then show ?thesis using Assistant False out nosol by simp
    qed
  qed
qed

text \<open>
  C5, as amended. In a start of conversation the chat route passes no history to the
  completion call. In every other turn it passes the system prompt, the supplied log
  filtered by author label and translated to role and content pairs, and the new user
  turn. That history is the thread the page's partitioner computes whenever the labels of
  the log follow the turns: the log holds no solution entry, and an assistant entry carries
  the partner's label (or a \<open>null\<close> label) exactly when it opens or answers for the
  partner. The entries of the other partner may be interleaved with the partner's own.
\<close>

theorem history_is_label_filter:
  "chatMessagesOf prompt userText (conversationHistory entries partnerName) =
     (if userText = START_CONVERSATION
      then [(''system'', prompt), (''user'', ''Please start the conversation'')]
      else [(''system'', prompt)] @
           map (\<lambda>msg. (roleString (role msg), message msg))
             (filter (labelledFor partnerName) entries) @
           [(''user'', userText)]) \<and>
   (labelsFollowTurns partnerName [] entries \<longrightarrow>
      filter (labelledFor partnerName) entries = filterMessagesByPartner entries partnerName)"
proof -
  have "labelsFollowTurns partnerName [] entries \<Longrightarrow>
      filterMessagesByPartner entries partnerName = filter (labelledFor partnerName) entries"
    unfolding filterMessagesByPartner_def
    using filterLoop_label_filter [of partnerName "[]" entries False "[]"] by simp
  then show ?thesis
    by (auto simp: chatMessagesOf_def conversationHistory_def partnerOnlyMessages_label_filter)
qed

theorem history_is_label_filter_witness:
  "labelsFollowTurns ''Alice'' [] [aliceOpener, bobOpener, bobTurn, aliceTurn, aliceReply, bobReply] \<and>
   filter (labelledFor ''Alice'') [aliceOpener, bobOpener, bobTurn, aliceTurn, aliceReply, bobReply] =
     [aliceOpener, aliceTurn, aliceReply] \<and>
   filterMessagesByPartner [aliceOpener, bobOpener, bobTurn, aliceTurn, aliceReply, bobReply] ''Alice'' =
     [aliceOpener, aliceTurn, aliceReply]"
proof -
  let ?entries = "[aliceOpener, bobOpener, bobTurn, aliceTurn, aliceReply, bobReply]"
  have follows: "labelsFollowTurns ''Alice'' [] ?entries"
    by (simp add: opensOrAnswers_def labelledFor_def SOLUTION_def aliceOpener_def
        aliceTurn_def aliceReply_def bobOpener_def bobTurn_def bobReply_def)
  have kept: "filter (labelledFor ''Alice'') ?entries = [aliceOpener, aliceTurn, aliceReply]"
    by (simp add: labelledFor_def aliceOpener_def aliceTurn_def aliceReply_def
        bobOpener_def bobTurn_def bobReply_def)
  show ?thesis
    using history_is_label_filter [of _ _ ?entries "''Alice''"] follows kept by simp
qed

text \<open>
  The claim as stated fails: for Bob, the route passes nothing of Alice's log, and the
  page's partitioner selects Alice's opener.
\<close>

theorem history_differs_from_thread:
  "conversationHistory [aliceOpener, aliceTurn, aliceReply] ''Bob'' = [] \<and>
   map (\<lambda>msg. (roleString (role msg), message msg))
     (filterMessagesByPartner [aliceOpener, aliceTurn, aliceReply] ''Bob'') =
   [(''assistant'', ''Hi Alice'')]"
  by (simp add: conversationHistory_def partnerOnlyMessages_def filterMessagesByPartner_def
      roleString_def aliceOpener_def aliceTurn_def aliceReply_def SOLUTION_def)

section \<open>Session completion coordinator: properties\<close>

text \<open>
  On one page the flag \<open>bothPartnersCompleted\<close> makes every later call return at once.
\<close>

lemma coordinator_noop_when_completed:
  "bothPartnersCompleted pg \<Longrightarrow> checkBothPartnersCompleted sessionId (pg, db) = (pg, db)"
  by (simp add: checkBothPartnersCompleted_def split: option.split)

text \<open>
  C1. However often the coordinator is called once both summaries exist, one solution
  entry is appended and no second one. This fails across pages: the guard against a second
  entry reads the page's cache \<open>allMessages\<close> when it is not empty, and the cache is
  the log as it was when the page loaded. Alice's page (empty cache) reads the store and
  appends the entry; Bob's page (its cache holds Alice's opener and no solution entry) then
  appends a second one.
\<close>

theorem coordinator_duplicate_solution:
  "checkBothPartnersCompleted ''s1'' (alicePage, storeWith [aliceOpener] [aliceSummary, bobSummary]) =
     (alicePage\<lparr>messages := [aliceOpener, solutionEntry], bothPartnersCompleted := True,
                finalSolution := Some bobSummary\<rparr>,
      storeWith [aliceOpener, solutionEntry] [aliceSummary, bobSummary]) \<and>
   checkBothPartnersCompleted ''s1''
       (bobPage, storeWith [aliceOpener, solutionEntry] [aliceSummary, bobSummary]) =
     (bobPage\<lparr>messages := [solutionEntry], bothPartnersCompleted := True,
              finalSolution := Some bobSummary\<rparr>,
      storeWith [aliceOpener, solutionEntry, solutionEntry] [aliceSummary, bobSummary])"
  by (simp add: Let_def checkBothPartnersCompleted_def alicePage_def bobPage_def storeWith_def
      getSessionSummaries_def getAllSessionMessages_def saveTherapyMessage_def
      partnerNamesOf_def split_def at_def truthy_def isSolution_def SOLUTION_def
      aliceAndBob_def aliceOpener_def solutionEntry_def aliceSummary_def bobSummary_def)

text \<open>
  C4. With summaries of fewer than two distinct partners the coordinator appends nothing.
  The coordinator counts rows: with two summary rows that both belong to Bob, the second
  partner, it appends a solution entry, and \<open>checkBothPartnersSummarized\<close> answers yes.
\<close>

theorem coordinator_fires_on_one_partner:
  "checkBothPartnersCompleted ''s1'' (alicePage, storeWith [aliceOpener] [bobSummary, bobSummary2]) =
     (alicePage\<lparr>messages := [aliceOpener, solutionEntry], bothPartnersCompleted := True,
                finalSolution := Some bobSummary\<rparr>,
      storeWith [aliceOpener, solutionEntry] [bobSummary, bobSummary2]) \<and>
   checkBothPartnersSummarized ''s1'' (storeWith [aliceOpener] [bobSummary, bobSummary2])"
  by (simp add: Let_def checkBothPartnersCompleted_def checkBothPartnersSummarized_def alicePage_def
      storeWith_def getSessionSummaries_def getAllSessionMessages_def saveTherapyMessage_def
      partnerNamesOf_def split_def at_def truthy_def isSolution_def SOLUTION_def
      aliceAndBob_def aliceOpener_def solutionEntry_def bobSummary2_def bobSummary_def)

lemma two_rows:
  "find P xs = Some a \<Longrightarrow> find Q xs = Some b \<Longrightarrow> a \<noteq> b \<Longrightarrow> 2 \<le> length xs"
proof (cases xs)
  case Nil
  assume "find P xs = Some a" with Nil show ?thesis by simp
next
  case (Cons x ys)
  assume a: "find P xs = Some a" and b: "find Q xs = Some b" and ne: "a \<noteq> b"
  show ?thesis
  proof (cases ys)
    case Nil
    with Cons a b have "a = x" "b = x" by (auto split: if_splits)
    with ne show ?thesis by simp
  next
    case (Cons y zs)
    with \<open>xs = x # ys\<close> show ?thesis by simp
  qed
qed

text \<open>
  C2, as amended. When both partners have a summary and neither the page's cache nor the
  stored log holds a solution entry, the coordinator appends one assistant entry labelled
  \<open>SOLUTION\<close>, whose text is the fixed heading followed by the text of the second
  partner's (earliest) summary.
\<close>

theorem solution_entry_text:
  assumes sess: "session pg = Some sess"
    and fresh: "\<not> bothPartnersCompleted pg"
    and p1: "at (partnerNamesOf sess) 0 = Some partner1"
    and p2: "at (partnerNamesOf sess) 1 = Some partner2"
    and ne: "partner1 \<noteq> partner2"
    and s1: "find (\<lambda>s. partner_name s = partner1) (getSessionSummaries sessionId db) = Some row1"
    and s2: "find (\<lambda>s. partner_name s = partner2) (getSessionSummaries sessionId db) = Some row2"
    and cache: "\<not> list_ex isSolution (allMessages pg)"
    and stored: "\<not> list_ex isSolution (getAllSessionMessages sessionId db)"
  shows "chat_messages (snd (checkBothPartnersCompleted sessionId (pg, db))) =
           chat_messages db @
           [\<lparr>session_id = sessionId, message = solutionHeading @ summary_text row2,
             role = Assistant, name = Name SOLUTION\<rparr>]"
proof -
  have "partner_name row1 = partner1" "partner_name row2 = partner2"
    using s1 s2 by (auto simp: find_Some_iff)
  then have "row1 \<noteq> row2" using ne by auto
  then have two: "2 \<le> length (getSessionSummaries sessionId db)"
    using two_rows [OF s1 s2] by simp
  have chk: "\<not> list_ex isSolution
               (if length (allMessages pg) > 0 then allMessages pg
                else getAllSessionMessages sessionId db)"
    using cache stored by simp
  show ?thesis
    using sess fresh p2 s2 two chk
    by (simp add: checkBothPartnersCompleted_def Let_def saveTherapyMessage_def)
qed

theorem solution_entry_text_witness:
  "session alicePage = Some aliceAndBob \<and> \<not> bothPartnersCompleted alicePage \<and>
   at (partnerNamesOf aliceAndBob) 0 = Some ''Alice'' \<and>
   at (partnerNamesOf aliceAndBob) 1 = Some ''Bob'' \<and>
   find (\<lambda>s. partner_name s = ''Alice'')
     (getSessionSummaries ''s1'' (storeWith [aliceOpener] [aliceSummary, bobSummary])) =
     Some aliceSummary \<and>
   find (\<lambda>s. partner_name s = ''Bob'')
     (getSessionSummaries ''s1'' (storeWith [aliceOpener] [aliceSummary, bobSummary])) =
     Some bobSummary \<and>
   chat_messages (snd (checkBothPartnersCompleted ''s1''
       (alicePage, storeWith [aliceOpener] [aliceSummary, bobSummary]))) =
     [aliceOpener,
      \<lparr>session_id = ''s1'', message = solutionHeading @ ''Bob side'', role = Assistant,
       name = Name SOLUTION\<rparr>]"
proof -
  let ?db = "storeWith [aliceOpener] [aliceSummary, bobSummary]"
  have sess: "session alicePage = Some aliceAndBob"
    and fresh: "\<not> bothPartnersCompleted alicePage"
    and cache: "\<not> list_ex isSolution (allMessages alicePage)"
    by (simp_all add: alicePage_def)
  have p1: "at (partnerNamesOf aliceAndBob) 0 = Some ''Alice''"
    and p2: "at (partnerNamesOf aliceAndBob) 1 = Some ''Bob''"
    by (simp_all add: partnerNamesOf_def aliceAndBob_def split_def at_def)
  have ne: "''Alice'' \<noteq> ''Bob''" by simp
  have s1: "find (\<lambda>s. partner_name s = ''Alice'') (getSessionSummaries ''s1'' ?db) = Some aliceSummary"
    and s2: "find (\<lambda>s. partner_name s = ''Bob'') (getSessionSummaries ''s1'' ?db) = Some bobSummary"
    by (simp_all add: getSessionSummaries_def storeWith_def aliceSummary_def bobSummary_def)
  have stored: "\<not> list_ex isSolution (getAllSessionMessages ''s1'' ?db)"
    by (simp add: getAllSessionMessages_def storeWith_def aliceOpener_def isSolution_def
        SOLUTION_def)
  have body: "summary_text bobSummary = ''Bob side''"
    and msgs: "chat_messages ?db = [aliceOpener]"
    by (simp_all add: bobSummary_def storeWith_def)
  show ?thesis
    using solution_entry_text [OF sess fresh p1 p2 ne s1 s2 cache stored]
      sess fresh p1 p2 s1 s2 body msgs
    by simp
qed

text \<open>
  The text of the appended entry is not the summary text alone: the heading comes first.
\<close>

theorem solution_text_has_heading:
  "chat_messages (snd (checkBothPartnersCompleted ''s1''
      (alicePage, storeWith [aliceOpener] [aliceSummary, bobSummary]))) =
     [aliceOpener, solutionEntry] \<and>
   summary_text bobSummary = ''Bob side'' \<and>
   message solutionEntry = solutionHeading @ ''Bob side'' \<and>
   message solutionEntry \<noteq> ''Bob side''"
  by (simp add: Let_def checkBothPartnersCompleted_def alicePage_def storeWith_def
      getSessionSummaries_def getAllSessionMessages_def saveTherapyMessage_def
      partnerNamesOf_def split_def at_def truthy_def isSolution_def SOLUTION_def
      aliceAndBob_def aliceOpener_def solutionEntry_def aliceSummary_def bobSummary_def
      solutionHeading_def)

section \<open>Conversation driver: properties\<close>

lemma start_is_a_message: "START_CONVERSATION \<noteq> []"
  by (simp add: START_CONVERSATION_def)

lemma second_partner_start_input:
  assumes "getTherapySession sessionId db = Some sess"
    and "partnerNamesOf sess = [partner1, partner2]"
    and "partner1 \<noteq> partner2" and "partner1 \<noteq> []" and "partner2 \<noteq> []"
    and "sessionId \<noteq> []"
  shows "POST_chat complete
           \<lparr>req_sessionId = sessionId, req_partnerName = partner2,
            req_message = START_CONVERSATION, req_messages = supplied\<rparr> db =
         completionResponse (complete
           [(''system'',
             createPartner2Prompt partner2 partner1 @
             (case filter (\<lambda>s. summary_session_id s = sessionId \<and> partner_name s = partner1)
                     (summaries db) of
                [row] \<Rightarrow> openingFraming partner2 partner1 (summary_text row)
              | _ \<Rightarrow> [])),
            (''user'', ''Please start the conversation'')])"
  using assms start_is_a_message
  by (simp add: POST_chat_def selectedPromptOf_def at_def otherPartnerNameOf_def
      getPartnerSummary_def single_def chatMessagesOf_def Let_def split: list.split)

lemma aliceAndBob_stored:
  "getTherapySession ''s1'' (storeWith entries rows) = Some aliceAndBob"
  by (simp add: getTherapySession_def storeWith_def single_def aliceAndBob_def)

lemma aliceAndBob_names: "partnerNamesOf aliceAndBob = [''Alice'', ''Bob'']"
  by (simp add: partnerNamesOf_def aliceAndBob_def split_def)

text \<open>
  C8. When the second-listed partner starts the conversation and a summary of the first
  partner is stored, the system prompt holds that summary inside the opening framing.
  This fails when the first partner has more than one summary row: the lookup asks for a
  single row, takes the error for "not found", and the completion call gets the bare
  template. With one row it gets the template followed by the framing.
\<close>

theorem second_summary_row_hides_summary:
  "getPartnerSummary ''s1'' ''Alice'' (storeWith [aliceOpener] [aliceSummary, aliceSummary2]) = None \<and>
   POST_chat complete
       \<lparr>req_sessionId = ''s1'', req_partnerName = ''Bob'',
        req_message = START_CONVERSATION, req_messages = []\<rparr>
       (storeWith [aliceOpener] [aliceSummary, aliceSummary2]) =
     completionResponse (complete
       [(''system'', createPartner2Prompt ''Bob'' ''Alice''),
        (''user'', ''Please start the conversation'')]) \<and>
   POST_chat complete
       \<lparr>req_sessionId = ''s1'', req_partnerName = ''Bob'',
        req_message = START_CONVERSATION, req_messages = []\<rparr>
       (storeWith [aliceOpener] [aliceSummary]) =
     completionResponse (complete
       [(''system'',
         createPartner2Prompt ''Bob'' ''Alice'' @ openingFraming ''Bob'' ''Alice'' ''Alice side''),
        (''user'', ''Please start the conversation'')])"
proof -
  have a: "''Alice'' \<noteq> ''Bob''" "''Alice'' \<noteq> []" "''Bob'' \<noteq> []" "''s1'' \<noteq> []"
    by simp_all
  show ?thesis
    using second_partner_start_input [OF aliceAndBob_stored aliceAndBob_names a,
        where complete = complete and supplied = "[]"]
    by (simp add: getPartnerSummary_def single_def storeWith_def aliceSummary_def
        aliceSummary2_def)
qed

lemma failed_start_keeps_store:
  assumes "\<And>entries. complete entries = CompletionError"
  shows "snd (autoStartConversation complete sessionId partnerName (pg, db)) = db"
    and "snd (handlePartnerSelect complete sessionId partnerName (pg, db)) = db"
  using assms
  by (simp_all add: autoStartConversation_def handlePartnerSelect_def POST_chat_def
      completionResponse_def Let_def split: option.split)

text \<open>
  C9, as amended. When the completion call fails, a start of conversation stores nothing;
  a submitted turn ends in the error branch, and the store differs from the one before the
  turn by the user's message alone, which the page saves before it calls the route: no
  reply and no summary is stored.
\<close>

theorem failed_turn_stores_user_message_only:
  assumes "\<And>entries. complete entries = CompletionError"
  shows "snd (autoStartConversation complete sessionId partnerName (pg, db)) = db \<and>
         snd (handlePartnerSelect complete sessionId partnerName (pg, db)) = db \<and>
         (selectedPartner pg = Some partner \<and> partner \<noteq> [] \<and>
          trim (input pg) \<noteq> [] \<and> \<not> isLoading pg \<longrightarrow>
            fst (handleSubmit complete sessionId (pg, db)) = TurnFailed \<and>
            snd (snd (handleSubmit complete sessionId (pg, db))) =
              db\<lparr>chat_messages := chat_messages db @
                   [\<lparr>session_id = sessionId, message = input pg, role = User,
                     name = Name partner\<rparr>]\<rparr>)"
  using assms failed_start_keeps_store [of complete]
  by (simp add: handleSubmit_def POST_chat_def completionResponse_def Let_def
      saveTherapyMessage_def split: option.split)

lemma trim_we_argued: "trim ''We argued'' = ''We argued''"
  by code_simp

theorem failed_turn_stores_user_message_only_witness:
  "snd (handlePartnerSelect failingCompletion ''s1'' ''Bob'' (bobPage, storeWith [aliceOpener] [])) =
     storeWith [aliceOpener] [] \<and>
   snd (autoStartConversation failingCompletion ''s1'' ''Alice'' (alicePage, storeWith [] [])) =
     storeWith [] [] \<and>
   selectedPartner alicePage = Some ''Alice'' \<and> trim (input alicePage) = ''We argued'' \<and>
   \<not> isLoading alicePage \<and>
   fst (handleSubmit failingCompletion ''s1'' (alicePage, storeWith [aliceOpener] [])) =
     TurnFailed \<and>
   snd (snd (handleSubmit failingCompletion ''s1'' (alicePage, storeWith [aliceOpener] []))) =
     storeWith [aliceOpener, aliceTurn] []"
proof -
  have sel: "selectedPartner alicePage = Some ''Alice''" and idle: "\<not> isLoading alicePage"
    by (simp_all add: alicePage_def)
  have typed: "trim (input alicePage) = ''We argued''"
    using trim_we_argued by (simp add: alicePage_def)
  have fails: "failingCompletion entries = CompletionError" for entries
    by (simp add: failingCompletion_def)
  have after: "(storeWith [aliceOpener] [])\<lparr>chat_messages :=
        chat_messages (storeWith [aliceOpener] []) @
        [\<lparr>session_id = ''s1'', message = input alicePage, role = User,
          name = Name ''Alice''\<rparr>]\<rparr> = storeWith [aliceOpener, aliceTurn] []"
    by (simp add: storeWith_def alicePage_def aliceTurn_def)
  show ?thesis
    using failed_turn_stores_user_message_only [where complete = failingCompletion
        and sessionId = "''s1''" and partnerName = "''Bob''" and pg = bobPage
        and db = "storeWith [aliceOpener] []", OF fails]
      failed_turn_stores_user_message_only [where complete = failingCompletion
        and sessionId = "''s1''" and partnerName = "''Alice''" and pg = alicePage
        and db = "storeWith [] []", OF fails]
      failed_turn_stores_user_message_only [where complete = failingCompletion
        and sessionId = "''s1''" and pg = alicePage and partner = "''Alice''"
        and db = "storeWith [aliceOpener] []", OF fails]
      sel typed idle after
    by simp
qed

text \<open>The claim as stated fails: after the failed turn the log holds Alice's message.\<close>

theorem turn_failure_stores_user_message:
  "fst (handleSubmit failingCompletion ''s1''
         (alicePage, storeWith [aliceOpener] [])) = TurnFailed \<and>
   snd (snd (handleSubmit failingCompletion ''s1''
         (alicePage, storeWith [aliceOpener] []))) = storeWith [aliceOpener, aliceTurn] [] \<and>
   storeWith [aliceOpener, aliceTurn] [] \<noteq> storeWith [aliceOpener] []"
  using trim_we_argued
  by (simp add: handleSubmit_def POST_chat_def completionResponse_def alicePage_def
      storeWith_def Let_def saveTherapyMessage_def getTherapySession_def single_def
      failingCompletion_def aliceAndBob_def aliceOpener_def aliceTurn_def)

section \<open>Session creation: properties\<close>

lemma splitLoop_no_separator:
  "\<not> includes_str b '' & '' \<Longrightarrow> splitLoop '' & '' cur b = [cur @ b]"
  by (induction b arbitrary: cur) simp_all

lemma splitLoop_first_separator:
  "\<not> includes_str (a @ '' &'') '' & '' \<Longrightarrow>
   splitLoop '' & '' cur (a @ '' & '' @ rest) = (cur @ a) # splitLoop '' & '' [] rest"
proof (induction a arbitrary: cur)
  case Nil
  show ?case by simp
next
  case (Cons c a)
  have here: "take 3 (c # a @ '' &'') \<noteq> '' & ''"
    and later: "\<not> includes_str (a @ '' &'') '' & ''"
    using Cons.prems by (simp_all add: numeral_2_eq_2)
  have "take 3 (c # a @ '' & '' @ rest) = take 3 (c # a @ '' &'')"
    by (cases a; cases "tl a") auto
  then have "take 3 (c # a @ '' & '' @ rest) \<noteq> '' & ''"
    using here by simp
  then show ?case using Cons.IH [OF later, of "cur @ [c]"] by (simp add: numeral_2_eq_2)
qed

lemma split_two_names:
  assumes "\<not> includes_str (a @ '' &'') '' & ''" and "\<not> includes_str b '' & ''"
  shows "split (a @ '' & '' @ b) '' & '' = [a, b]"
  using splitLoop_first_separator [OF assms(1), of "[]" b] splitLoop_no_separator [OF assms(2), of "[]"]
  by (simp add: split_def)

lemma coordinator_keeps_sessions:
  "chat_sessions (snd (checkBothPartnersCompleted sessionId (pg, db))) = chat_sessions db"
  by (simp add: checkBothPartnersCompleted_def Let_def saveTherapyMessage_def
      split: option.split)

lemma handleSubmit_keeps_sessions:
  "chat_sessions (snd (snd (handleSubmit complete sessionId (pg, db)))) = chat_sessions db"
  by (simp add: handleSubmit_def Let_def saveTherapyMessage_def savePartnerSummary_def
      split: option.split http_response.split)

lemma start_keeps_sessions:
  "chat_sessions (snd (autoStartConversation complete sessionId partnerName (pg, db))) =
     chat_sessions db"
  "chat_sessions (snd (handlePartnerSelect complete sessionId partnerName (pg, db))) =
     chat_sessions db"
  by (simp_all add: autoStartConversation_def handlePartnerSelect_def Let_def
      saveTherapyMessage_def split: http_response.split)

text \<open>
  C10, as amended. A session created from the home page stores the two trimmed names,
  both non-empty, joined by \<open>" & "\<close>. When the separator occurs neither in the first
  trimmed name followed by \<open>" &"\<close> nor in the second trimmed name, the stored text reads
  back as exactly that ordered pair. No operation of the page or the service changes a
  stored session: saving a message or a summary, a coordinator call, a start of
  conversation and a turn leave the session table as it is, and creating a session appends
  to it.
\<close>

theorem created_session_names:
  assumes "handleStartSession newId partner1Name partner2Name db = (Navigate sessionId, db')"
  shows "sessionId = newId \<and> trim partner1Name \<noteq> [] \<and> trim partner2Name \<noteq> [] \<and>
         db' = db\<lparr>chat_sessions := chat_sessions db @
                  [\<lparr>id_of = newId, session_type = THERAPY,
                    partner_names = Some (trim partner1Name @ '' & '' @ trim partner2Name)\<rparr>]\<rparr> \<and>
         (\<not> includes_str (trim partner1Name @ '' &'') '' & '' \<and>
          \<not> includes_str (trim partner2Name) '' & '' \<longrightarrow>
            partnerNamesOf
              \<lparr>id_of = newId, session_type = THERAPY,
               partner_names = Some (trim partner1Name @ '' & '' @ trim partner2Name)\<rparr> =
            [trim partner1Name, trim partner2Name]) \<and>
         chat_sessions (saveTherapyMessage msg db') = chat_sessions db' \<and>
         chat_sessions (savePartnerSummary row db') = chat_sessions db' \<and>
         chat_sessions (snd (checkBothPartnersCompleted sid (pg, db'))) = chat_sessions db' \<and>
         chat_sessions (snd (snd (handleSubmit complete sid (pg, db')))) = chat_sessions db' \<and>
         chat_sessions (snd (autoStartConversation complete sid partner (pg, db'))) =
           chat_sessions db' \<and>
         chat_sessions (snd (handlePartnerSelect complete sid partner (pg, db'))) =
           chat_sessions db' \<and>
         chat_sessions (snd (createTherapySession otherId names db')) =
           chat_sessions db' @
           [\<lparr>id_of = otherId, session_type = THERAPY, partner_names = Some names\<rparr>]"
proof -
  have "sessionId = newId \<and> trim partner1Name \<noteq> [] \<and> trim partner2Name \<noteq> [] \<and>
         db' = db\<lparr>chat_sessions := chat_sessions db @
                  [\<lparr>id_of = newId, session_type = THERAPY,
                    partner_names = Some (trim partner1Name @ '' & '' @ trim partner2Name)\<rparr>]\<rparr>"
    using assms
    by (auto simp: handleStartSession_def POST_create_session_def createTherapySession_def
        Let_def split: if_splits)
  moreover have "\<not> includes_str (trim partner1Name @ '' &'') '' & '' \<and>
          \<not> includes_str (trim partner2Name) '' & '' \<longrightarrow>
            partnerNamesOf
              \<lparr>id_of = newId, session_type = THERAPY,
               partner_names = Some (trim partner1Name @ '' & '' @ trim partner2Name)\<rparr> =
            [trim partner1Name, trim partner2Name]"
    using split_two_names by (simp add: partnerNamesOf_def)
  ultimately show ?thesis
    by (simp add: coordinator_keeps_sessions handleSubmit_keeps_sessions start_keeps_sessions
        saveTherapyMessage_def savePartnerSummary_def createTherapySession_def Let_def)
qed

lemma trim_alice_nbsp: "trim (''Alice'' @ [CHR 0xC2, CHR 0xA0]) = ''Alice''"
  by code_simp

lemma trim_bob: "trim '' Bob'' = ''Bob''"
  by code_simp

theorem created_session_names_witness:
  "handleStartSession ''s2'' (''Alice'' @ [CHR 0xC2, CHR 0xA0]) '' Bob'' (storeWith [] []) =
     (Navigate ''s2'',
      (storeWith [] [])\<lparr>chat_sessions := chat_sessions (storeWith [] []) @
         [\<lparr>id_of = ''s2'', session_type = THERAPY, partner_names = Some ''Alice & Bob''\<rparr>]\<rparr>) \<and>
   trim (''Alice'' @ [CHR 0xC2, CHR 0xA0]) = ''Alice'' \<and> trim '' Bob'' = ''Bob'' \<and>
   \<not> includes_str ''Alice &'' '' & '' \<and> \<not> includes_str ''Bob'' '' & '' \<and>
   partnerNamesOf
     \<lparr>id_of = ''s2'', session_type = THERAPY, partner_names = Some ''Alice & Bob''\<rparr> =
     [''Alice'', ''Bob'']"
proof -
  have run: "handleStartSession ''s2'' (''Alice'' @ [CHR 0xC2, CHR 0xA0]) '' Bob'' (storeWith [] []) =
     (Navigate ''s2'',
      snd (handleStartSession ''s2'' (''Alice'' @ [CHR 0xC2, CHR 0xA0]) '' Bob'' (storeWith [] [])))"
    using trim_alice_nbsp trim_bob
    by (simp add: handleStartSession_def POST_create_session_def createTherapySession_def Let_def)
  have clean: "\<not> includes_str ''Alice &'' '' & ''" "\<not> includes_str ''Bob'' '' & ''"
    by simp_all
  show ?thesis
    using created_session_names [OF run] trim_alice_nbsp trim_bob run clean by simp
qed

text \<open>
  The names need not be distinct; a name that holds the separator reads back as several
  names, one of which can be empty; and the endpoint by itself accepts any non-empty
  string.
\<close>

lemma trim_plain:
  "trim ''Alice'' = ''Alice''" "trim ''x &  & y'' = ''x &  & y''" "trim ''z'' = ''z''"
  by code_simp+

theorem stored_names_not_checked:
  "fst (handleStartSession ''s2'' ''Alice'' ''Alice'' (storeWith [] [])) = Navigate ''s2'' \<and>
   map partnerNamesOf (chat_sessions (snd (handleStartSession ''s2'' ''Alice'' ''Alice''
       (storeWith [] [])))) = [[''Alice'', ''Bob''], [''Alice'', ''Alice'']] \<and>
   fst (handleStartSession ''s3'' ''x &  & y'' ''z'' (storeWith [] [])) = Navigate ''s3'' \<and>
   map partnerNamesOf (chat_sessions (snd (handleStartSession ''s3'' ''x &  & y'' ''z''
       (storeWith [] [])))) = [[''Alice'', ''Bob''], [''x'', [], ''y'', ''z'']] \<and>
   fst (POST_create_session ''s4'' (Str ''x'') (storeWith [] [])) =
     SessionResponse ''s4'' (Some ''x'')"
  using trim_plain
  by (simp add: handleStartSession_def POST_create_session_def createTherapySession_def
      Let_def storeWith_def partnerNamesOf_def split_def aliceAndBob_def)

section \<open>Completion detector: properties\<close>

lemma take_eq_iff_append: "take (length sub) s = sub \<longleftrightarrow> (\<exists>post. s = sub @ post)"
proof
  assume "take (length sub) s = sub"
  then have "s = sub @ drop (length sub) s" by (metis append_take_drop_id)
  then show "\<exists>post. s = sub @ post" ..
next
  assume "\<exists>post. s = sub @ post"
  then show "take (length sub) s = sub" by auto
qed

lemma includes_str_iff: "includes_str s sub \<longleftrightarrow> (\<exists>pre post. s = pre @ sub @ post)"
proof (induction s)
  case Nil
  show ?case by auto
next
  case (Cons c cs)
  show ?case
  proof
    assume "includes_str (c # cs) sub"
    then consider "take (length sub) (c # cs) = sub" | "includes_str cs sub" by auto
    then show "\<exists>pre post. c # cs = pre @ sub @ post"
    proof cases
      case 1
      then obtain post where "c # cs = sub @ post" using take_eq_iff_append by blast
      then have "c # cs = [] @ sub @ post" by simp
      then show ?thesis by blast
    next
      case 2
      then obtain pre post where "cs = pre @ sub @ post" using Cons.IH by blast
      then have "c # cs = (c # pre) @ sub @ post" by simp
      then show ?thesis by blast
    qed
  next
    assume "\<exists>pre post. c # cs = pre @ sub @ post"
    then obtain pre post where eq: "c # cs = pre @ sub @ post" by blast
    show "includes_str (c # cs) sub"
    proof (cases pre)
      case Nil
      with eq have "take (length sub) (c # cs) = sub" using take_eq_iff_append by fastforce
      then show ?thesis by simp
    next
      case (Cons p ps)
      with eq have "cs = ps @ sub @ post" by simp
      then have "includes_str cs sub" using Cons.IH by blast
      then show ?thesis by simp
    qed
  qed
qed

lemma same_case_iff:
  "list_all2 (\<lambda>a b. toLowerChar a = toLowerChar b) w m \<longleftrightarrow> toLowerCase w = toLowerCase m"
  unfolding toLowerCase_def
  by (induction w arbitrary: m) (auto simp: list_all2_Cons1)

lemma includes_lower_iff:
  "includes_str (toLowerCase r) (toLowerCase m) \<longleftrightarrow>
   (\<exists>pre w post. r = pre @ w @ post \<and> list_all2 (\<lambda>a b. toLowerChar a = toLowerChar b) w m)"
proof
  assume "includes_str (toLowerCase r) (toLowerCase m)"
  then obtain a c where "toLowerCase r = a @ toLowerCase m @ c"
    using includes_str_iff by blast
  then have eq: "map toLowerChar r = a @ (map toLowerChar m @ c)"
    by (simp add: toLowerCase_def)
  define pre where "pre = take (length a) r"
  define w where "w = take (length m) (drop (length a) r)"
  define post where "post = drop (length m) (drop (length a) r)"
  have "r = pre @ w @ post"
    by (simp only: pre_def w_def post_def append_take_drop_id)
  moreover have "map toLowerChar w = take (length m) (drop (length a) (map toLowerChar r))"
    by (simp only: w_def take_map drop_map)
  then have "map toLowerChar w = map toLowerChar m"
    by (simp add: eq)
  ultimately have "r = pre @ w @ post \<and> toLowerCase w = toLowerCase m"
    by (simp add: toLowerCase_def)
  then show "\<exists>pre w post. r = pre @ w @ post \<and> list_all2 (\<lambda>a b. toLowerChar a = toLowerChar b) w m"
    using same_case_iff by blast
next
  assume "\<exists>pre w post. r = pre @ w @ post \<and> list_all2 (\<lambda>a b. toLowerChar a = toLowerChar b) w m"
  then obtain pre w post where "r = pre @ w @ post" and "toLowerCase w = toLowerCase m"
    using same_case_iff by blast
  then have "toLowerCase r = toLowerCase pre @ toLowerCase m @ toLowerCase post"
    by (simp add: toLowerCase_def)
  then show "includes_str (toLowerCase r) (toLowerCase m)"
    using includes_str_iff by blast
qed


text \<open>
  C7. The detector returns a summary exactly when some part of the reply equals a marker
  phrase up to the case of its letters, and the summary is then the whole reply.
\<close>

theorem detectSummary_case_insensitive:
  "detectSummary reply =
    (if (\<exists>marker \<in> set summaryMarkers. \<exists>pre w post.
           reply = pre @ w @ post \<and> list_all2 (\<lambda>a b. toLowerChar a = toLowerChar b) w marker)
     then Some reply else None)"
  by (simp add: detectSummary_def hasSummaryFormat_def list_ex_iff includes_lower_iff)

theorem detectSummary_case_insensitive_witness:
  "(\<exists>marker \<in> set summaryMarkers. \<exists>pre w post.
      ''Ok. HERE'S WHAT I HAVE UNDERSTOOD SO FAR FROM YOUR PERSPECTIVE'' = pre @ w @ post \<and>
      list_all2 (\<lambda>a b. toLowerChar a = toLowerChar b) w marker) \<and>
   detectSummary ''Ok. HERE'S WHAT I HAVE UNDERSTOOD SO FAR FROM YOUR PERSPECTIVE'' =
     Some ''Ok. HERE'S WHAT I HAVE UNDERSTOOD SO FAR FROM YOUR PERSPECTIVE''"
proof -
  let ?r = "''Ok. HERE'S WHAT I HAVE UNDERSTOOD SO FAR FROM YOUR PERSPECTIVE''"
  let ?w = "''HERE'S WHAT I HAVE UNDERSTOOD SO FAR FROM YOUR PERSPECTIVE''"
  let ?m = "''Here's what I have understood so far from your perspective''"
  have m: "?m \<in> set summaryMarkers"
    by code_simp
  have d: "?r = ''Ok. '' @ ?w @ []"
    by (simp only: append.simps append_Nil2)
  have c: "list_all2 (\<lambda>a b. toLowerChar a = toLowerChar b) ?w ?m"
    by code_simp
  have ex: "\<exists>marker \<in> set summaryMarkers. \<exists>pre w post.
      ?r = pre @ w @ post \<and> list_all2 (\<lambda>a b. toLowerChar a = toLowerChar b) w marker"
    by (rule bexI [OF _ m], intro exI conjI, rule d, rule c)
  have "detectSummary ?r = Some ?r"
    using detectSummary_case_insensitive [of ?r] ex by (simp only: if_True)
  with ex show ?thesis by (rule conjI)
qed

end
